theory Spec2Isabelle
  imports Complex_Main
begin

section \<open>The kernel loader of \<open>src/lib2/index.ts\<close>\<close>

subsection \<open>Data\<close>

text \<open>
  \<open>NativeClipperLibLoadedFormat\<close> is the const enum of the two binary formats.
  \<open>NativeClipperLibRequestedFormat\<close> is a string enum; at run time the \<open>switch\<close> of
  \<open>loadNativeClipperLibInstanceAsync\<close> compares the argument with the three strings, so
  the requested format is a string here and the three members are string constants.
\<close>

datatype NativeClipperLibLoadedFormat = Wasm | AsmJs

definition WasmWithAsmJsFallback :: string where
  "WasmWithAsmJsFallback = ''wasmWithAsmJsFallback''"

definition WasmOnly :: string where
  "WasmOnly = ''wasmOnly''"

definition AsmJsOnly :: string where
  "AsmJsOnly = ''asmJsOnly''"

text \<open>
  A native instance is opaque to the loader: it is the module object \<open>initModule\<close> returned,
  known here by an identifier. An \<open>Error\<close> object is either a \<open>ClipperError\<close> with its message
  or an error of the native runtime, known by an identifier.
\<close>

type_synonym NativeClipperLibInstance = nat

datatype js_error = ClipperError string | NativeError nat

text \<open>
  The values the loader handles. The module-level variables \<open>wasmModule\<close> and \<open>asmJsModule\<close>
  start as \<open>undefined\<close> and are assigned what the awaited promise resolved with (a module) or,
  in the \<open>catch\<close> blocks, the caught value as it is. A rejection value is not typed: \<open>quit\<close>
  passes its \<open>err\<close> argument on and an exception of \<open>initModule\<close> carries what was thrown, so
  besides an \<open>Error\<close> it can be \<open>undefined\<close> or any other value (\<open>OtherValue\<close>, known by an
  identifier). The loader looks at a value in two ways only: \<open>instanceof Error\<close> and
  \<open>=== undefined\<close>.
\<close>

datatype js_value =
    Undefined
  | Instance NativeClipperLibInstance
  | IsError js_error
  | OtherValue nat

fun instanceof_Error :: "js_value \<Rightarrow> bool" where
  "instanceof_Error (IsError e) = True"
| "instanceof_Error v = False"

text \<open>
  \<open>class ClipperLibWrapper\<close>: the two readonly fields the constructor sets (it stores the
  value it is given, whatever it is), and the identity of the object (\<open>new\<close> makes a fresh
  object at every call), as the number of the allocation.
\<close>

record ClipperLibWrapper =
  wrapper_ref :: nat
  wrapper_instance :: js_value
  wrapper_format :: NativeClipperLibLoadedFormat

text \<open>
  How the promise of \<open>getModuleAsync\<close> settles: \<open>preRun\<close> resolves it with the module
  \<open>initModule\<close> returned, \<open>quit\<close> (or an exception of \<open>initModule\<close>) rejects it with the
  value it was given, and when the runtime calls neither hook it never settles.
\<close>

datatype init_outcome = Ready NativeClipperLibInstance | Quit js_value | NeverSettles

text \<open>
  The native runtime is outside the repository: \<open>env F k\<close> is how the \<open>k\<close>-th initialisation
  of format \<open>F\<close> (counting from 0) ends.
\<close>

type_synonym native_env = "NativeClipperLibLoadedFormat \<Rightarrow> nat \<Rightarrow> init_outcome"

text \<open>
  The state the loader reads and writes: the two module variables, and three counters that
  the source does not keep but its effects determine: how many times \<open>initModule\<close> was
  called for each format, and how many wrappers were constructed.
\<close>

record loader_state =
  wasmModule :: js_value
  asmJsModule :: js_value
  wasmInits :: nat
  asmJsInits :: nat
  wrappersMade :: nat

definition initial_state :: loader_state where
  "initial_state = \<lparr>wasmModule = Undefined, asmJsModule = Undefined,
     wasmInits = 0, asmJsInits = 0, wrappersMade = 0\<rparr>"

subsection \<open>One call, between two suspensions\<close>

text \<open>
  An \<open>async\<close> function runs without interruption from its start to its first \<open>await\<close>, and
  from the settling of an awaited promise to the next \<open>await\<close> or to its end. A call is
  therefore at one of these points: not started, suspended at the \<open>await\<close> of the Wasm
  section (remembering \<open>tryAsmJs\<close> and how the awaited promise will settle), suspended at
  the \<open>await\<close> of the asm.js section, or settled with the thrown error or the returned
  wrapper.
\<close>

datatype call_point =
    Start string
  | AwaitWasm bool init_outcome
  | AwaitAsmJs init_outcome
  | Settled "js_error + ClipperLibWrapper"

definition unknown_format_error :: js_error where
  "unknown_format_error = ClipperError ''unknown native clipper format''"

definition could_not_load_error :: js_error where
  "could_not_load_error = ClipperError ''could not load native clipper in the desired format''"

text \<open>
  \<open>getModuleAsync(initModule)\<close>: the promise executor calls \<open>initModule\<close> at once, before
  the caller reaches its \<open>await\<close>; the result is how the promise will settle. The \<open>require\<close>
  before it loads a script of the package itself and is taken to return its \<open>init\<close>.
\<close>

definition getModuleAsync ::
  "native_env \<Rightarrow> NativeClipperLibLoadedFormat \<Rightarrow> loader_state \<Rightarrow> init_outcome \<times> loader_state" where
  "getModuleAsync env F s =
     (case F of
        Wasm \<Rightarrow> (env Wasm (wasmInits s), s\<lparr>wasmInits := Suc (wasmInits s)\<rparr>)
      | AsmJs \<Rightarrow> (env AsmJs (asmJsInits s), s\<lparr>asmJsInits := Suc (asmJsInits s)\<rparr>))"

text \<open>\<open>return new ClipperLibWrapper(instance, format)\<close>.\<close>

definition return_new_wrapper ::
  "js_value \<Rightarrow> NativeClipperLibLoadedFormat \<Rightarrow> loader_state \<Rightarrow> call_point \<times> loader_state" where
  "return_new_wrapper v F s =
     (Settled (Inr \<lparr>wrapper_ref = wrappersMade s, wrapper_instance = v, wrapper_format = F\<rparr>),
      s\<lparr>wrappersMade := Suc (wrappersMade s)\<rparr>)"

text \<open>
  The \<open>if (tryAsmJs)\<close> block and the final \<open>throw\<close>, up to the \<open>await\<close>: an \<open>Error\<close> in the
  variable is skipped, \<open>undefined\<close> starts the initialisation, and any other value is wrapped
  and returned.
\<close>

definition asmJs_section :: "native_env \<Rightarrow> bool \<Rightarrow> loader_state \<Rightarrow> call_point \<times> loader_state" where
  "asmJs_section env tryAsmJs s =
     (if tryAsmJs then
        (if instanceof_Error (asmJsModule s) then (Settled (Inl could_not_load_error), s)
         else if asmJsModule s = Undefined
         then (case getModuleAsync env AsmJs s of (out, s') \<Rightarrow> (AwaitAsmJs out, s'))
         else return_new_wrapper (asmJsModule s) AsmJs s)
      else (Settled (Inl could_not_load_error), s))"

text \<open>The \<open>if (tryWasm)\<close> block, up to the \<open>await\<close>, falling through to the asm.js block.\<close>

definition wasm_section :: "native_env \<Rightarrow> bool \<Rightarrow> bool \<Rightarrow> loader_state \<Rightarrow> call_point \<times> loader_state" where
  "wasm_section env tryWasm tryAsmJs s =
     (if tryWasm then
        (if instanceof_Error (wasmModule s) then asmJs_section env tryAsmJs s
         else if wasmModule s = Undefined
         then (case getModuleAsync env Wasm s of (out, s') \<Rightarrow> (AwaitWasm tryAsmJs out, s'))
         else return_new_wrapper (wasmModule s) Wasm s)
      else asmJs_section env tryAsmJs s)"

text \<open>The \<open>switch (format)\<close> and what follows it, up to the first \<open>await\<close>.\<close>

definition start_call :: "native_env \<Rightarrow> string \<Rightarrow> loader_state \<Rightarrow> call_point \<times> loader_state" where
  "start_call env fmt s =
     (if fmt = WasmWithAsmJsFallback then wasm_section env True True s
      else if fmt = WasmOnly then wasm_section env True False s
      else if fmt = AsmJsOnly then wasm_section env False True s
      else (Settled (Inl unknown_format_error), s))"

text \<open>
  One uninterrupted run of a call. After the \<open>await\<close> of the Wasm section: the assignment to
  \<open>wasmModule\<close> and the \<open>return\<close>, or the \<open>catch\<close> that stores the caught value and falls
  through to the asm.js section. After the \<open>await\<close> of the asm.js section: the assignment
  and the \<open>return\<close>, or the \<open>catch\<close> that stores the caught value, and the final \<open>throw\<close>. A
  call whose promise never settles stays where it is, and so does a settled call.
\<close>

fun advance :: "native_env \<Rightarrow> call_point \<Rightarrow> loader_state \<Rightarrow> call_point \<times> loader_state" where
  "advance env (Start fmt) s = start_call env fmt s"
| "advance env (AwaitWasm tryAsmJs (Ready h)) s =
     return_new_wrapper (Instance h) Wasm (s\<lparr>wasmModule := Instance h\<rparr>)"
| "advance env (AwaitWasm tryAsmJs (Quit v)) s =
     asmJs_section env tryAsmJs (s\<lparr>wasmModule := v\<rparr>)"
| "advance env (AwaitWasm tryAsmJs NeverSettles) s = (AwaitWasm tryAsmJs NeverSettles, s)"
| "advance env (AwaitAsmJs (Ready h)) s =
     return_new_wrapper (Instance h) AsmJs (s\<lparr>asmJsModule := Instance h\<rparr>)"
| "advance env (AwaitAsmJs (Quit v)) s =
     (Settled (Inl could_not_load_error), s\<lparr>asmJsModule := v\<rparr>)"
| "advance env (AwaitAsmJs NeverSettles) s = (AwaitAsmJs NeverSettles, s)"
| "advance env (Settled r) s = (Settled r, s)"

subsection \<open>A call that no other call overlaps\<close>

text \<open>
  A call has at most two suspensions, so three runs finish it unless a promise never
  settles; the result is then \<open>None\<close>.
\<close>

fun settled_value :: "call_point \<Rightarrow> (js_error + ClipperLibWrapper) option" where
  "settled_value (Settled r) = Some r"
| "settled_value _ = None"

definition loadNativeClipperLibInstanceAsync ::
  "native_env \<Rightarrow> string \<Rightarrow> loader_state \<Rightarrow> (js_error + ClipperLibWrapper) option \<times> loader_state" where
  "loadNativeClipperLibInstanceAsync env fmt s =
     (case advance env (Start fmt) s of (p1, s1) \<Rightarrow>
      case advance env p1 s1 of (p2, s2) \<Rightarrow>
      case advance env p2 s2 of (p3, s3) \<Rightarrow> (settled_value p3, s3))"

subsection \<open>Overlapping calls\<close>

text \<open>
  Several calls in flight share the loader state. A schedule names, at each step, the
  call that runs next; a call that is suspended on a promise that never settles, or that is
  settled, or that does not exist, does nothing.
\<close>

fun run_call :: "native_env \<Rightarrow> nat \<Rightarrow> call_point list \<times> loader_state \<Rightarrow> call_point list \<times> loader_state" where
  "run_call env i (ps, s) =
     (if i < length ps
      then (case advance env (ps ! i) s of (p', s') \<Rightarrow> (ps[i := p'], s'))
      else (ps, s))"

fun run_schedule :: "native_env \<Rightarrow> nat list \<Rightarrow> call_point list \<times> loader_state \<Rightarrow> call_point list \<times> loader_state" where
  "run_schedule env [] c = c"
| "run_schedule env (i # sched) c = run_schedule env sched (run_call env i c)"

subsection \<open>Calls one after the other\<close>

text \<open>
  The state after a list of calls, each made when the one before it has returned, thrown,
  or will never settle.
\<close>

fun later_calls :: "native_env \<Rightarrow> string list \<Rightarrow> loader_state \<Rightarrow> loader_state" where
  "later_calls env [] s = s"
| "later_calls env (fmt # fmts) s =
     later_calls env fmts (snd (loadNativeClipperLibInstanceAsync env fmt s))"

subsection \<open>Native runtimes used in the examples\<close>

text \<open>A runtime whose every initialisation succeeds, the \<open>k\<close>-th one with module \<open>k\<close>.\<close>

definition fresh_module_env :: native_env where
  "fresh_module_env F k = Ready k"

text \<open>A runtime whose every initialisation calls \<open>quit\<close> with the \<open>Error\<close> 7.\<close>

definition quitting_env :: native_env where
  "quitting_env F k = Quit (IsError (NativeError 7))"

text \<open>A runtime where Wasm quits with the \<open>Error\<close> 7 and asm.js starts with module 3.\<close>

definition wasm_quits_env :: native_env where
  "wasm_quits_env F k =
     (case F of Wasm \<Rightarrow> Quit (IsError (NativeError 7)) | AsmJs \<Rightarrow> Ready 3)"


text \<open>
  A runtime whose first initialisation of a format is rejected with \<open>undefined\<close> and whose
  later ones succeed, the \<open>k\<close>-th with module \<open>k\<close>.
\<close>

definition undefined_rejection_env :: native_env where
  "undefined_rejection_env F k = (if k = 0 then Quit Undefined else Ready k)"

section \<open>The operations of \<open>ClipperLibWrapper\<close>\<close>

type_synonym IntPoint = "int \<times> int"

type_synonym Path = "IntPoint list"

type_synonym Paths = "Path list"

subsection \<open>\<open>cleanPolygon\<close> and \<open>cleanPolygons\<close>\<close>

text \<open>
  Both methods declare \<open>distance = 1.1415\<close> and pass it to the function of the same name of
  \<open>./functions\<close>, which is not among the sources and is a parameter here. A call without the
  argument is \<open>None\<close>. The literal is read as the decimal fraction it denotes.
\<close>

definition default_distance :: real where
  "default_distance = 1.1415"

definition ClipperLibWrapper_cleanPolygon ::
  "(js_value \<Rightarrow> Path \<Rightarrow> real \<Rightarrow> Path) \<Rightarrow> ClipperLibWrapper \<Rightarrow> Path \<Rightarrow> real option \<Rightarrow> Path" where
  "ClipperLibWrapper_cleanPolygon cleanPolygon this path distance =
     cleanPolygon (wrapper_instance this) path
       (case distance of None \<Rightarrow> default_distance | Some d \<Rightarrow> d)"

definition ClipperLibWrapper_cleanPolygons ::
  "(js_value \<Rightarrow> Paths \<Rightarrow> real \<Rightarrow> Paths) \<Rightarrow> ClipperLibWrapper \<Rightarrow> Paths \<Rightarrow> real option \<Rightarrow> Paths" where
  "ClipperLibWrapper_cleanPolygons cleanPolygons this paths distance =
     cleanPolygons (wrapper_instance this) paths
       (case distance of None \<Rightarrow> default_distance | Some d \<Rightarrow> d)"

text \<open>The distance between two points, squared.\<close>

definition dist2 :: "IntPoint \<Rightarrow> IntPoint \<Rightarrow> int" where
  "dist2 p q = (fst p - fst q)\<^sup>2 + (snd p - snd q)\<^sup>2"

subsection \<open>\<open>clipToPaths\<close>\<close>

datatype ClipType = Intersection | Union | Difference | Xor

datatype PolyFillType = EvenOdd | NonZero

datatype operation_error = UsagePrecondition | KernelOperationFailure int

text \<open>
  The clip request of the specification: the subject paths, each with its closed flag
  (\<open>False\<close> for a polyline), the clip paths, the operation and the two fill rules.
\<close>

record ClipData =
  clipType :: ClipType
  subjectInputs :: "(Path \<times> bool) list"
  clipInputs :: "Path list"
  subjectFillType :: PolyFillType
  clipFillType :: PolyFillType

text \<open>
  Modelled from the spec: \<open>clipToPaths\<close> of \<open>./clipFunctions\<close>, which is not among the
  sources. The specification gives its precondition: when any subject path is open, asking
  for the flat \<open>Paths\<close> form is a usage error, reported and not downgraded; otherwise the
  kernel (the parameter \<open>nativeClip\<close>) computes the result. The result type \<open>Paths | undefined\<close> is the one
  the method declares.
\<close>

definition clipToPaths ::
  "(js_value \<Rightarrow> ClipData \<Rightarrow> operation_error + Paths option) \<Rightarrow>
   js_value \<Rightarrow> ClipData \<Rightarrow> operation_error + Paths option" where
  "clipToPaths nativeClip nativeLib clipData =
     (if list_ex (\<lambda>input. \<not> snd input) (subjectInputs clipData)
      then Inl UsagePrecondition
      else nativeClip nativeLib clipData)"

text \<open>The method of the class: \<open>return clipToPaths(this.instance, data)\<close>.\<close>

definition ClipperLibWrapper_clipToPaths ::
  "(js_value \<Rightarrow> ClipData \<Rightarrow> operation_error + Paths option) \<Rightarrow>
   ClipperLibWrapper \<Rightarrow> ClipData \<Rightarrow> operation_error + Paths option" where
  "ClipperLibWrapper_clipToPaths nativeClip this clipData =
     clipToPaths nativeClip (wrapper_instance this) clipData"

subsection \<open>\<open>area\<close> and \<open>reversePath\<close>\<close>

text \<open>The cross product of two vertices, and its sum along a chain of vertices.\<close>

definition cross :: "IntPoint \<Rightarrow> IntPoint \<Rightarrow> int" where
  "cross p q = fst p * snd q - fst q * snd p"

fun cross_sum :: "Path \<Rightarrow> int" where
  "cross_sum (p # q # ps) = cross p q + cross_sum (q # ps)"
| "cross_sum _ = 0"

text \<open>
  Modelled from the spec: \<open>area\<close> of \<open>./functions\<close>, which is not among the sources. The
  specification describes it as the signed polygon area, computed locally as a direct sum
  over consecutive-vertex cross products; the last vertex is followed by the first, and the
  sum is halved. Coordinates are the integers of the data model, so the sum is exact.
\<close>

definition area :: "Path \<Rightarrow> real" where
  "area path =
     (case path of
        [] \<Rightarrow> 0
      | p # ps \<Rightarrow> real_of_int (cross_sum (path @ [p])) / 2)"

text \<open>
  Modelled from the spec: \<open>reversePath\<close> of \<open>./functions\<close>, which is not among the sources.
  The specification describes it as the in-place reversal of the vertex order; the
  function gives the contents of the path after the call.
\<close>

definition reversePath :: "Path \<Rightarrow> Path" where
  "reversePath path = rev path"

text \<open>The methods of the class: \<open>return area(path)\<close> and \<open>reversePath(path)\<close>.\<close>

definition ClipperLibWrapper_area :: "ClipperLibWrapper \<Rightarrow> Path \<Rightarrow> real" where
  "ClipperLibWrapper_area this path = area path"

definition ClipperLibWrapper_reversePath :: "ClipperLibWrapper \<Rightarrow> Path \<Rightarrow> Path" where
  "ClipperLibWrapper_reversePath this path = reversePath path"

section \<open>The claims about the loader, and what they rest on\<close>

subsection \<open>Auxiliary facts about one call\<close>

lemma advance_AwaitWasm:
  "advance env (AwaitWasm t out) s =
     (case out of
        Ready h \<Rightarrow> return_new_wrapper (Instance h) Wasm (s\<lparr>wasmModule := Instance h\<rparr>)
      | Quit v \<Rightarrow> asmJs_section env t (s\<lparr>wasmModule := v\<rparr>)
      | NeverSettles \<Rightarrow> (AwaitWasm t NeverSettles, s))"
  by (cases out) simp_all

lemma advance_AwaitAsmJs:
  "advance env (AwaitAsmJs out) s =
     (case out of
        Ready h \<Rightarrow> return_new_wrapper (Instance h) AsmJs (s\<lparr>asmJsModule := Instance h\<rparr>)
      | Quit v \<Rightarrow> (Settled (Inl could_not_load_error), s\<lparr>asmJsModule := v\<rparr>)
      | NeverSettles \<Rightarrow> (AwaitAsmJs NeverSettles, s))"
  by (cases out) simp_all

lemmas call_defs =
  loadNativeClipperLibInstanceAsync_def start_call_def wasm_section_def asmJs_section_def
  getModuleAsync_def return_new_wrapper_def advance_AwaitWasm advance_AwaitAsmJs

lemmas call_splits = if_splits init_outcome.splits

lemma requested_distinct [simp]:
  "WasmOnly \<noteq> WasmWithAsmJsFallback" "WasmWithAsmJsFallback \<noteq> WasmOnly"
  "AsmJsOnly \<noteq> WasmWithAsmJsFallback" "WasmWithAsmJsFallback \<noteq> AsmJsOnly"
  "AsmJsOnly \<noteq> WasmOnly" "WasmOnly \<noteq> AsmJsOnly"
  by (simp_all add: WasmOnly_def WasmWithAsmJsFallback_def AsmJsOnly_def)





lemma load_success_is_cached:
  assumes "loadNativeClipperLibInstanceAsync env fmt s0 = (Some (Inr w), s)"
  shows "(wrapper_format w = Wasm \<longrightarrow> wasmModule s = wrapper_instance w)
       \<and> (wrapper_format w = AsmJs \<longrightarrow> asmJsModule s = wrapper_instance w)
       \<and> \<not> instanceof_Error (wrapper_instance w) \<and> wrapper_instance w \<noteq> Undefined"
  using assms
  by (auto simp: call_defs could_not_load_error_def unknown_format_error_def
      split: call_splits)

lemma load_keeps_wasm_instance:
  assumes "\<not> instanceof_Error (wasmModule s)" and "wasmModule s \<noteq> Undefined"
  shows "wasmModule (snd (loadNativeClipperLibInstanceAsync env fmt s)) = wasmModule s
       \<and> wasmInits (snd (loadNativeClipperLibInstanceAsync env fmt s)) = wasmInits s"
  using assms by (auto simp: call_defs split: call_splits)

lemma load_keeps_asmJs_instance:
  assumes "\<not> instanceof_Error (asmJsModule s)" and "asmJsModule s \<noteq> Undefined"
  shows "asmJsModule (snd (loadNativeClipperLibInstanceAsync env fmt s)) = asmJsModule s
       \<and> asmJsInits (snd (loadNativeClipperLibInstanceAsync env fmt s)) = asmJsInits s"
  using assms by (auto simp: call_defs split: call_splits)

lemma later_calls_keep_wasm_instance:
  "\<not> instanceof_Error (wasmModule s) \<Longrightarrow> wasmModule s \<noteq> Undefined \<Longrightarrow>
   wasmModule (later_calls env fmts s) = wasmModule s
   \<and> wasmInits (later_calls env fmts s) = wasmInits s"
proof (induction fmts arbitrary: s)
  case Nil
  then show ?case by simp
next
  case (Cons fmt fmts)
  from load_keeps_wasm_instance [OF Cons.prems, of env fmt] Cons.IH Cons.prems
  show ?case by simp
qed

lemma later_calls_keep_asmJs_instance:
  "\<not> instanceof_Error (asmJsModule s) \<Longrightarrow> asmJsModule s \<noteq> Undefined \<Longrightarrow>
   asmJsModule (later_calls env fmts s) = asmJsModule s
   \<and> asmJsInits (later_calls env fmts s) = asmJsInits s"
proof (induction fmts arbitrary: s)
  case Nil
  then show ?case by simp
next
  case (Cons fmt fmts)
  from load_keeps_asmJs_instance [OF Cons.prems, of env fmt] Cons.IH Cons.prems
  show ?case by simp
qed

lemma load_success_new_wrapper:
  "loadNativeClipperLibInstanceAsync env fmt s = (Some (Inr w), s') \<Longrightarrow>
   wrapper_ref w = wrappersMade s \<and> wrappersMade s' = Suc (wrappersMade s)"
  by (auto simp: call_defs could_not_load_error_def unknown_format_error_def split: call_splits)

lemma load_wrappersMade_mono:
  "wrappersMade s \<le> wrappersMade (snd (loadNativeClipperLibInstanceAsync env fmt s))"
  by (auto simp: call_defs split: call_splits)

lemma later_calls_wrappersMade_mono:
  "wrappersMade s \<le> wrappersMade (later_calls env fmts s)"
proof (induction fmts arbitrary: s)
  case Nil
  show ?case by simp
next
  case (Cons fmt fmts)
  have "wrappersMade s \<le> wrappersMade (snd (loadNativeClipperLibInstanceAsync env fmt s))"
    by (rule load_wrappersMade_mono)
  also have "\<dots> \<le> wrappersMade (later_calls env fmts (snd (loadNativeClipperLibInstanceAsync env fmt s)))"
    by (rule Cons.IH)
  finally show ?case by simp
qed

lemma load_returns_cached_instance:
  assumes "loadNativeClipperLibInstanceAsync env fmt s = (Some (Inr w), s')"
  shows "(\<not> instanceof_Error (wasmModule s) \<and> wasmModule s \<noteq> Undefined \<and> wrapper_format w = Wasm
            \<longrightarrow> wrapper_instance w = wasmModule s)
       \<and> (\<not> instanceof_Error (asmJsModule s) \<and> asmJsModule s \<noteq> Undefined \<and> wrapper_format w = AsmJs
            \<longrightarrow> wrapper_instance w = asmJsModule s)"
  using assms
  by (auto simp: call_defs could_not_load_error_def unknown_format_error_def split: call_splits)



lemma wasmOnly_leaves_asmJs:
  "asmJsModule (snd (loadNativeClipperLibInstanceAsync env WasmOnly s)) = asmJsModule s
   \<and> asmJsInits (snd (loadNativeClipperLibInstanceAsync env WasmOnly s)) = asmJsInits s
   \<and> (\<forall>w. fst (loadNativeClipperLibInstanceAsync env WasmOnly s) = Some (Inr w) \<longrightarrow> wrapper_format w = Wasm)"
  by (auto simp: call_defs split: call_splits)

lemma asmJsOnly_leaves_wasm:
  "wasmModule (snd (loadNativeClipperLibInstanceAsync env AsmJsOnly s)) = wasmModule s
   \<and> wasmInits (snd (loadNativeClipperLibInstanceAsync env AsmJsOnly s)) = wasmInits s
   \<and> (\<forall>w. fst (loadNativeClipperLibInstanceAsync env AsmJsOnly s) = Some (Inr w) \<longrightarrow> wrapper_format w = AsmJs)"
  by (auto simp: call_defs split: call_splits)

lemma wasmOnly_attempts_wasm:
  "(wasmModule s = Undefined \<and> env Wasm (wasmInits s) = Ready h \<longrightarrow>
      loadNativeClipperLibInstanceAsync env WasmOnly s
        = (Some (Inr \<lparr>wrapper_ref = wrappersMade s, wrapper_instance = Instance h, wrapper_format = Wasm\<rparr>),
           s\<lparr>wasmModule := Instance h, wasmInits := Suc (wasmInits s),
             wrappersMade := Suc (wrappersMade s)\<rparr>))
   \<and> (wasmModule s = Undefined \<and> env Wasm (wasmInits s) = Quit v \<longrightarrow>
      loadNativeClipperLibInstanceAsync env WasmOnly s
        = (Some (Inl (ClipperError ''could not load native clipper in the desired format'')), s\<lparr>wasmModule := v, wasmInits := Suc (wasmInits s)\<rparr>))
   \<and> (wasmModule s = Undefined \<and> env Wasm (wasmInits s) = NeverSettles \<longrightarrow>
      loadNativeClipperLibInstanceAsync env WasmOnly s = (None, s\<lparr>wasmInits := Suc (wasmInits s)\<rparr>))
   \<and> (instanceof_Error (wasmModule s) \<longrightarrow>
      loadNativeClipperLibInstanceAsync env WasmOnly s = (Some (Inl (ClipperError ''could not load native clipper in the desired format'')), s))
   \<and> (\<not> instanceof_Error (wasmModule s) \<and> wasmModule s \<noteq> Undefined \<longrightarrow>
      loadNativeClipperLibInstanceAsync env WasmOnly s
        = (Some (Inr \<lparr>wrapper_ref = wrappersMade s, wrapper_instance = wasmModule s, wrapper_format = Wasm\<rparr>),
           s\<lparr>wrappersMade := Suc (wrappersMade s)\<rparr>))"
  by (auto simp: call_defs could_not_load_error_def)

lemma asmJsOnly_attempts_asmJs:
  "(asmJsModule s = Undefined \<and> env AsmJs (asmJsInits s) = Ready h \<longrightarrow>
      loadNativeClipperLibInstanceAsync env AsmJsOnly s
        = (Some (Inr \<lparr>wrapper_ref = wrappersMade s, wrapper_instance = Instance h, wrapper_format = AsmJs\<rparr>),
           s\<lparr>asmJsModule := Instance h, asmJsInits := Suc (asmJsInits s),
             wrappersMade := Suc (wrappersMade s)\<rparr>))
   \<and> (asmJsModule s = Undefined \<and> env AsmJs (asmJsInits s) = Quit v \<longrightarrow>
      loadNativeClipperLibInstanceAsync env AsmJsOnly s
        = (Some (Inl (ClipperError ''could not load native clipper in the desired format'')), s\<lparr>asmJsModule := v, asmJsInits := Suc (asmJsInits s)\<rparr>))
   \<and> (asmJsModule s = Undefined \<and> env AsmJs (asmJsInits s) = NeverSettles \<longrightarrow>
      loadNativeClipperLibInstanceAsync env AsmJsOnly s = (None, s\<lparr>asmJsInits := Suc (asmJsInits s)\<rparr>))
   \<and> (instanceof_Error (asmJsModule s) \<longrightarrow>
      loadNativeClipperLibInstanceAsync env AsmJsOnly s = (Some (Inl (ClipperError ''could not load native clipper in the desired format'')), s))
   \<and> (\<not> instanceof_Error (asmJsModule s) \<and> asmJsModule s \<noteq> Undefined \<longrightarrow>
      loadNativeClipperLibInstanceAsync env AsmJsOnly s
        = (Some (Inr \<lparr>wrapper_ref = wrappersMade s, wrapper_instance = asmJsModule s, wrapper_format = AsmJs\<rparr>),
           s\<lparr>wrappersMade := Suc (wrappersMade s)\<rparr>))"
  by (auto simp: call_defs could_not_load_error_def)

lemma fallback_wasm_first:
  "(wasmModule s = Undefined \<longrightarrow>
      wasmInits (snd (loadNativeClipperLibInstanceAsync env WasmWithAsmJsFallback s)) = Suc (wasmInits s))
   \<and> (wasmModule s = Undefined \<and> env Wasm (wasmInits s) = Ready h \<longrightarrow>
      loadNativeClipperLibInstanceAsync env WasmWithAsmJsFallback s
        = (Some (Inr \<lparr>wrapper_ref = wrappersMade s, wrapper_instance = Instance h, wrapper_format = Wasm\<rparr>),
           s\<lparr>wasmModule := Instance h, wasmInits := Suc (wasmInits s),
             wrappersMade := Suc (wrappersMade s)\<rparr>))
   \<and> (wasmModule s = Undefined \<and> env Wasm (wasmInits s) = NeverSettles \<longrightarrow>
      loadNativeClipperLibInstanceAsync env WasmWithAsmJsFallback s = (None, s\<lparr>wasmInits := Suc (wasmInits s)\<rparr>))
   \<and> (\<not> instanceof_Error (wasmModule s) \<and> wasmModule s \<noteq> Undefined \<longrightarrow>
      loadNativeClipperLibInstanceAsync env WasmWithAsmJsFallback s
        = (Some (Inr \<lparr>wrapper_ref = wrappersMade s, wrapper_instance = wasmModule s, wrapper_format = Wasm\<rparr>),
           s\<lparr>wrappersMade := Suc (wrappersMade s)\<rparr>))"
  by (auto simp: call_defs split: call_splits)

lemma fallback_then_asmJs:
  "(instanceof_Error (wasmModule s) \<longrightarrow>
      loadNativeClipperLibInstanceAsync env WasmWithAsmJsFallback s = loadNativeClipperLibInstanceAsync env AsmJsOnly s)
   \<and> (wasmModule s = Undefined \<and> env Wasm (wasmInits s) = Quit v \<longrightarrow>
      loadNativeClipperLibInstanceAsync env WasmWithAsmJsFallback s
        = loadNativeClipperLibInstanceAsync env AsmJsOnly (s\<lparr>wasmModule := v, wasmInits := Suc (wasmInits s)\<rparr>))"
  by (auto simp: call_defs split: call_splits)

lemma fallback_asmJs_only_if:
  "(asmJsModule (snd (loadNativeClipperLibInstanceAsync env WasmWithAsmJsFallback s)) \<noteq> asmJsModule s
     \<or> asmJsInits (snd (loadNativeClipperLibInstanceAsync env WasmWithAsmJsFallback s)) \<noteq> asmJsInits s
     \<or> (\<exists>w. fst (loadNativeClipperLibInstanceAsync env WasmWithAsmJsFallback s) = Some (Inr w) \<and> wrapper_format w = AsmJs))
   \<longrightarrow> instanceof_Error (wasmModule s)
     \<or> (wasmModule s = Undefined \<and> (\<exists>v. env Wasm (wasmInits s) = Quit v))"
  by (auto simp: call_defs split: call_splits)

lemma fallback_asmJs_if:
  "instanceof_Error (wasmModule s)
     \<or> (wasmModule s = Undefined \<and> (\<exists>v. env Wasm (wasmInits s) = Quit v))
   \<longrightarrow> (asmJsModule s = Undefined \<longrightarrow>
      asmJsInits (snd (loadNativeClipperLibInstanceAsync env WasmWithAsmJsFallback s)) = Suc (asmJsInits s))
   \<and> (\<not> instanceof_Error (asmJsModule s) \<and> asmJsModule s \<noteq> Undefined \<longrightarrow>
       fst (loadNativeClipperLibInstanceAsync env WasmWithAsmJsFallback s)
        = Some (Inr \<lparr>wrapper_ref = wrappersMade s, wrapper_instance = asmJsModule s, wrapper_format = AsmJs\<rparr>))"
  by (auto simp: call_defs split: call_splits)

lemma asmJsOnly_independent_of_wasm:
  "loadNativeClipperLibInstanceAsync env AsmJsOnly (s\<lparr>wasmModule := v, wasmInits := n\<rparr>)
     = (fst (loadNativeClipperLibInstanceAsync env AsmJsOnly s),
        (snd (loadNativeClipperLibInstanceAsync env AsmJsOnly s))\<lparr>wasmModule := v, wasmInits := n\<rparr>)"
  by (auto simp: call_defs split: call_splits)

lemma wasmOnly_independent_of_asmJs:
  "loadNativeClipperLibInstanceAsync env WasmOnly (s\<lparr>asmJsModule := v, asmJsInits := n\<rparr>)
     = (fst (loadNativeClipperLibInstanceAsync env WasmOnly s),
        (snd (loadNativeClipperLibInstanceAsync env WasmOnly s))\<lparr>asmJsModule := v, asmJsInits := n\<rparr>)"
  by (auto simp: call_defs split: call_splits)

lemma exhausted_formats_throw_generic:
  "(fmt = WasmOnly \<and> instanceof_Error (wasmModule (snd (loadNativeClipperLibInstanceAsync env fmt s)))
    \<or> fmt = AsmJsOnly \<and> instanceof_Error (asmJsModule (snd (loadNativeClipperLibInstanceAsync env fmt s)))
    \<or> fmt = WasmWithAsmJsFallback
       \<and> instanceof_Error (wasmModule (snd (loadNativeClipperLibInstanceAsync env fmt s)))
       \<and> instanceof_Error (asmJsModule (snd (loadNativeClipperLibInstanceAsync env fmt s))))
   \<longrightarrow> fst (loadNativeClipperLibInstanceAsync env fmt s) = Some (Inl (ClipperError ''could not load native clipper in the desired format''))"
  by (auto simp: call_defs could_not_load_error_def split: call_splits)

lemma thrown_error_is_generic:
  "fst (loadNativeClipperLibInstanceAsync env fmt s) = Some (Inl err)
   \<longrightarrow> err = ClipperError ''could not load native clipper in the desired format''
       \<or> err = ClipperError ''unknown native clipper format''"
  by (auto simp: call_defs could_not_load_error_def unknown_format_error_def split: call_splits)

lemma rejection_value_is_stored:
  "(wasmModule s = Undefined \<and> (fmt = WasmOnly \<or> fmt = WasmWithAsmJsFallback)
      \<and> env Wasm (wasmInits s) = Quit v
    \<longrightarrow> wasmModule (snd (loadNativeClipperLibInstanceAsync env fmt s)) = v)
   \<and> (asmJsModule s = Undefined
      \<and> (fmt = AsmJsOnly
          \<or> fmt = WasmWithAsmJsFallback
             \<and> (instanceof_Error (wasmModule s)
                 \<or> wasmModule s = Undefined \<and> (\<exists>v'. env Wasm (wasmInits s) = Quit v')))
      \<and> env AsmJs (asmJsInits s) = Quit v
    \<longrightarrow> asmJsModule (snd (loadNativeClipperLibInstanceAsync env fmt s)) = v)"
  by (auto simp: call_defs split: call_splits)

lemma failed_wasm_not_retried:
  "instanceof_Error (wasmModule s) \<longrightarrow>
     wasmModule (snd (loadNativeClipperLibInstanceAsync env fmt s)) = wasmModule s
     \<and> wasmInits (snd (loadNativeClipperLibInstanceAsync env fmt s)) = wasmInits s"
  by (auto simp: call_defs split: call_splits)

lemma failed_asmJs_not_retried:
  "instanceof_Error (asmJsModule s) \<longrightarrow>
     asmJsModule (snd (loadNativeClipperLibInstanceAsync env fmt s)) = asmJsModule s
     \<and> asmJsInits (snd (loadNativeClipperLibInstanceAsync env fmt s)) = asmJsInits s"
  by (auto simp: call_defs split: call_splits)

lemma later_calls_keep_wasm_error:
  "instanceof_Error (wasmModule s) \<longrightarrow>
     wasmModule (later_calls env fmts s) = wasmModule s
     \<and> wasmInits (later_calls env fmts s) = wasmInits s"
proof (induction fmts arbitrary: s)
  case Nil
  show ?case by simp
next
  case (Cons fmt fmts)
  from failed_wasm_not_retried [of s env fmt] Cons.IH [of "snd (loadNativeClipperLibInstanceAsync env fmt s)"]
  show ?case by simp
qed

lemma later_calls_keep_asmJs_error:
  "instanceof_Error (asmJsModule s) \<longrightarrow>
     asmJsModule (later_calls env fmts s) = asmJsModule s
     \<and> asmJsInits (later_calls env fmts s) = asmJsInits s"
proof (induction fmts arbitrary: s)
  case Nil
  show ?case by simp
next
  case (Cons fmt fmts)
  from failed_asmJs_not_retried [of s env fmt] Cons.IH [of "snd (loadNativeClipperLibInstanceAsync env fmt s)"]
  show ?case by simp
qed

lemma error_is_skipped_at_every_step:
  "(instanceof_Error (wasmModule s) \<longrightarrow> wasmInits (snd (advance env p s)) = wasmInits s)
   \<and> (instanceof_Error (asmJsModule s) \<longrightarrow> asmJsInits (snd (advance env p s)) = asmJsInits s)"
  by (cases p) (auto simp: call_defs split: call_splits)












subsection \<open>The claims about the loader\<close>







text \<open>
  C3. The formats are attempted in the order of the requested mode. \<open>WasmOnly\<close> attempts
  Wasm and only Wasm: it initialises an undefined Wasm variable and returns the module,
  throws when the initialisation is rejected or the variable holds an \<open>Error\<close>, returns the
  cached value otherwise, and in every case leaves the asm.js variable and its
  initialisations alone. \<open>AsmJsOnly\<close> is the mirror image. \<open>WasmWithAsmJsFallback\<close> starts
  with Wasm: an undefined Wasm variable is initialised, and a ready or cached Wasm module is
  returned with asm.js untouched; when the Wasm variable holds an \<open>Error\<close>, or the Wasm
  initialisation of this call is rejected, the call continues exactly as an \<open>AsmJsOnly\<close>
  call would, and only in these two cases does it reach asm.js (change its variable,
  initialise it, or return an asm.js wrapper). The two variables are independent: the
  outcome of \<open>AsmJsOnly\<close> does not depend on the Wasm variable, nor that of \<open>WasmOnly\<close> on
  the asm.js variable.
\<close>

theorem formats_attempted_in_order_and_independent:
  "(asmJsModule (snd (loadNativeClipperLibInstanceAsync env WasmOnly s)) = asmJsModule s
   \<and> asmJsInits (snd (loadNativeClipperLibInstanceAsync env WasmOnly s)) = asmJsInits s
   \<and> (\<forall>w. fst (loadNativeClipperLibInstanceAsync env WasmOnly s) = Some (Inr w) \<longrightarrow> wrapper_format w = Wasm))
   \<and> (wasmModule (snd (loadNativeClipperLibInstanceAsync env AsmJsOnly s)) = wasmModule s
   \<and> wasmInits (snd (loadNativeClipperLibInstanceAsync env AsmJsOnly s)) = wasmInits s
   \<and> (\<forall>w. fst (loadNativeClipperLibInstanceAsync env AsmJsOnly s) = Some (Inr w) \<longrightarrow> wrapper_format w = AsmJs))
   \<and> ((wasmModule s = Undefined \<and> env Wasm (wasmInits s) = Ready h \<longrightarrow>
      loadNativeClipperLibInstanceAsync env WasmOnly s
        = (Some (Inr \<lparr>wrapper_ref = wrappersMade s, wrapper_instance = Instance h, wrapper_format = Wasm\<rparr>),
           s\<lparr>wasmModule := Instance h, wasmInits := Suc (wasmInits s),
             wrappersMade := Suc (wrappersMade s)\<rparr>))
   \<and> (wasmModule s = Undefined \<and> env Wasm (wasmInits s) = Quit v \<longrightarrow>
      loadNativeClipperLibInstanceAsync env WasmOnly s
        = (Some (Inl (ClipperError ''could not load native clipper in the desired format'')), s\<lparr>wasmModule := v, wasmInits := Suc (wasmInits s)\<rparr>))
   \<and> (wasmModule s = Undefined \<and> env Wasm (wasmInits s) = NeverSettles \<longrightarrow>
      loadNativeClipperLibInstanceAsync env WasmOnly s = (None, s\<lparr>wasmInits := Suc (wasmInits s)\<rparr>))
   \<and> (instanceof_Error (wasmModule s) \<longrightarrow>
      loadNativeClipperLibInstanceAsync env WasmOnly s = (Some (Inl (ClipperError ''could not load native clipper in the desired format'')), s))
   \<and> (\<not> instanceof_Error (wasmModule s) \<and> wasmModule s \<noteq> Undefined \<longrightarrow>
      loadNativeClipperLibInstanceAsync env WasmOnly s
        = (Some (Inr \<lparr>wrapper_ref = wrappersMade s, wrapper_instance = wasmModule s, wrapper_format = Wasm\<rparr>),
           s\<lparr>wrappersMade := Suc (wrappersMade s)\<rparr>)))
   \<and> ((asmJsModule s = Undefined \<and> env AsmJs (asmJsInits s) = Ready h \<longrightarrow>
      loadNativeClipperLibInstanceAsync env AsmJsOnly s
        = (Some (Inr \<lparr>wrapper_ref = wrappersMade s, wrapper_instance = Instance h, wrapper_format = AsmJs\<rparr>),
           s\<lparr>asmJsModule := Instance h, asmJsInits := Suc (asmJsInits s),
             wrappersMade := Suc (wrappersMade s)\<rparr>))
   \<and> (asmJsModule s = Undefined \<and> env AsmJs (asmJsInits s) = Quit v \<longrightarrow>
      loadNativeClipperLibInstanceAsync env AsmJsOnly s
        = (Some (Inl (ClipperError ''could not load native clipper in the desired format'')), s\<lparr>asmJsModule := v, asmJsInits := Suc (asmJsInits s)\<rparr>))
   \<and> (asmJsModule s = Undefined \<and> env AsmJs (asmJsInits s) = NeverSettles \<longrightarrow>
      loadNativeClipperLibInstanceAsync env AsmJsOnly s = (None, s\<lparr>asmJsInits := Suc (asmJsInits s)\<rparr>))
   \<and> (instanceof_Error (asmJsModule s) \<longrightarrow>
      loadNativeClipperLibInstanceAsync env AsmJsOnly s = (Some (Inl (ClipperError ''could not load native clipper in the desired format'')), s))
   \<and> (\<not> instanceof_Error (asmJsModule s) \<and> asmJsModule s \<noteq> Undefined \<longrightarrow>
      loadNativeClipperLibInstanceAsync env AsmJsOnly s
        = (Some (Inr \<lparr>wrapper_ref = wrappersMade s, wrapper_instance = asmJsModule s, wrapper_format = AsmJs\<rparr>),
           s\<lparr>wrappersMade := Suc (wrappersMade s)\<rparr>)))
   \<and> ((wasmModule s = Undefined \<longrightarrow>
      wasmInits (snd (loadNativeClipperLibInstanceAsync env WasmWithAsmJsFallback s)) = Suc (wasmInits s))
   \<and> (wasmModule s = Undefined \<and> env Wasm (wasmInits s) = Ready h \<longrightarrow>
      loadNativeClipperLibInstanceAsync env WasmWithAsmJsFallback s
        = (Some (Inr \<lparr>wrapper_ref = wrappersMade s, wrapper_instance = Instance h, wrapper_format = Wasm\<rparr>),
           s\<lparr>wasmModule := Instance h, wasmInits := Suc (wasmInits s),
             wrappersMade := Suc (wrappersMade s)\<rparr>))
   \<and> (wasmModule s = Undefined \<and> env Wasm (wasmInits s) = NeverSettles \<longrightarrow>
      loadNativeClipperLibInstanceAsync env WasmWithAsmJsFallback s = (None, s\<lparr>wasmInits := Suc (wasmInits s)\<rparr>))
   \<and> (\<not> instanceof_Error (wasmModule s) \<and> wasmModule s \<noteq> Undefined \<longrightarrow>
      loadNativeClipperLibInstanceAsync env WasmWithAsmJsFallback s
        = (Some (Inr \<lparr>wrapper_ref = wrappersMade s, wrapper_instance = wasmModule s, wrapper_format = Wasm\<rparr>),
           s\<lparr>wrappersMade := Suc (wrappersMade s)\<rparr>)))
   \<and> ((instanceof_Error (wasmModule s) \<longrightarrow>
      loadNativeClipperLibInstanceAsync env WasmWithAsmJsFallback s = loadNativeClipperLibInstanceAsync env AsmJsOnly s)
   \<and> (wasmModule s = Undefined \<and> env Wasm (wasmInits s) = Quit v \<longrightarrow>
      loadNativeClipperLibInstanceAsync env WasmWithAsmJsFallback s
        = loadNativeClipperLibInstanceAsync env AsmJsOnly (s\<lparr>wasmModule := v, wasmInits := Suc (wasmInits s)\<rparr>)))
   \<and> ((asmJsModule (snd (loadNativeClipperLibInstanceAsync env WasmWithAsmJsFallback s)) \<noteq> asmJsModule s
     \<or> asmJsInits (snd (loadNativeClipperLibInstanceAsync env WasmWithAsmJsFallback s)) \<noteq> asmJsInits s
     \<or> (\<exists>w. fst (loadNativeClipperLibInstanceAsync env WasmWithAsmJsFallback s) = Some (Inr w) \<and> wrapper_format w = AsmJs))
   \<longrightarrow> instanceof_Error (wasmModule s)
     \<or> (wasmModule s = Undefined \<and> (\<exists>v. env Wasm (wasmInits s) = Quit v)))
   \<and> (instanceof_Error (wasmModule s)
     \<or> (wasmModule s = Undefined \<and> (\<exists>v. env Wasm (wasmInits s) = Quit v))
   \<longrightarrow> (asmJsModule s = Undefined \<longrightarrow>
      asmJsInits (snd (loadNativeClipperLibInstanceAsync env WasmWithAsmJsFallback s)) = Suc (asmJsInits s))
   \<and> (\<not> instanceof_Error (asmJsModule s) \<and> asmJsModule s \<noteq> Undefined \<longrightarrow>
       fst (loadNativeClipperLibInstanceAsync env WasmWithAsmJsFallback s)
        = Some (Inr \<lparr>wrapper_ref = wrappersMade s, wrapper_instance = asmJsModule s, wrapper_format = AsmJs\<rparr>)))
   \<and> (loadNativeClipperLibInstanceAsync env AsmJsOnly (s\<lparr>wasmModule := v, wasmInits := n\<rparr>)
     = (fst (loadNativeClipperLibInstanceAsync env AsmJsOnly s),
        (snd (loadNativeClipperLibInstanceAsync env AsmJsOnly s))\<lparr>wasmModule := v, wasmInits := n\<rparr>))
   \<and> (loadNativeClipperLibInstanceAsync env WasmOnly (s\<lparr>asmJsModule := v, asmJsInits := n\<rparr>)
     = (fst (loadNativeClipperLibInstanceAsync env WasmOnly s),
        (snd (loadNativeClipperLibInstanceAsync env WasmOnly s))\<lparr>asmJsModule := v, asmJsInits := n\<rparr>))"
  (is "?A1 \<and> ?A2 \<and> ?A3 \<and> ?A4 \<and> ?A5 \<and> ?A6 \<and> ?A7 \<and> ?A8 \<and> ?A9 \<and> ?A10")
proof -
  have 1: ?A1 by (rule wasmOnly_leaves_asmJs)
  have 2: ?A2 by (rule asmJsOnly_leaves_wasm)
  have 3: ?A3 by (rule wasmOnly_attempts_wasm)
  have 4: ?A4 by (rule asmJsOnly_attempts_asmJs)
  have 5: ?A5 by (rule fallback_wasm_first)
  have 6: ?A6 by (rule fallback_then_asmJs)
  have 7: ?A7 by (rule fallback_asmJs_only_if)
  have 8: ?A8 by (rule fallback_asmJs_if)
  have 9: ?A9 by (rule asmJsOnly_independent_of_wasm)
  have 10: ?A10 by (rule wasmOnly_independent_of_asmJs)
  show ?thesis by (rule conjI [OF 1 conjI [OF 2 conjI [OF 3 conjI [OF 4 conjI [OF 5 conjI [OF 6 conjI [OF 7 conjI [OF 8 conjI [OF 9 10]]]]]]]]])
qed

theorem formats_attempted_in_order_and_independent_witness:
  "wasmModule initial_state = Undefined
   \<and> wasm_quits_env Wasm (wasmInits initial_state) = Quit (IsError (NativeError 7))
   \<and> loadNativeClipperLibInstanceAsync wasm_quits_env WasmWithAsmJsFallback initial_state
     = loadNativeClipperLibInstanceAsync wasm_quits_env AsmJsOnly \<lparr>wasmModule = IsError (NativeError 7), asmJsModule = Undefined, wasmInits = 1, asmJsInits = 0, wrappersMade = 0\<rparr>
   \<and> loadNativeClipperLibInstanceAsync wasm_quits_env WasmWithAsmJsFallback initial_state
     = (Some (Inr \<lparr>wrapper_ref = 0, wrapper_instance = Instance 3, wrapper_format = AsmJs\<rparr>), \<lparr>wasmModule = IsError (NativeError 7), asmJsModule = Instance 3, wasmInits = 1, asmJsInits = 1, wrappersMade = 1\<rparr>)"
proof -
  have hyp: "wasmModule initial_state = Undefined
     \<and> wasm_quits_env Wasm (wasmInits initial_state) = Quit (IsError (NativeError 7))"
    by (simp add: initial_state_def wasm_quits_env_def)
  note sixth = formats_attempted_in_order_and_independent
    [where env = wasm_quits_env and s = initial_state and v = "IsError (NativeError 7)",
      THEN conjunct2, THEN conjunct2, THEN conjunct2, THEN conjunct2, THEN conjunct2,
      THEN conjunct1, THEN conjunct2]
  from sixth [THEN mp, OF hyp]
  have fallback: "loadNativeClipperLibInstanceAsync wasm_quits_env WasmWithAsmJsFallback initial_state
     = loadNativeClipperLibInstanceAsync wasm_quits_env AsmJsOnly
         (initial_state\<lparr>wasmModule := IsError (NativeError 7),
            wasmInits := Suc (wasmInits initial_state)\<rparr>)" .
  have asmJs: "loadNativeClipperLibInstanceAsync wasm_quits_env AsmJsOnly \<lparr>wasmModule = IsError (NativeError 7), asmJsModule = Undefined, wasmInits = 1, asmJsInits = 0, wrappersMade = 0\<rparr>
     = (Some (Inr \<lparr>wrapper_ref = 0, wrapper_instance = Instance 3, wrapper_format = AsmJs\<rparr>), \<lparr>wasmModule = IsError (NativeError 7), asmJsModule = Instance 3, wasmInits = 1, asmJsInits = 1, wrappersMade = 1\<rparr>)"
    by (simp add: call_defs wasm_quits_env_def)
  from fallback asmJs hyp show ?thesis by (simp add: initial_state_def)
qed

text \<open>
  C4, as stated, fails: with a runtime that quits with the \<open>Error\<close> 7, a \<open>WasmOnly\<close> call from
  the initial state stores that error in \<open>wasmModule\<close>, so the cause is available, and throws
  the \<open>ClipperError\<close> with the fixed message, not error 7.
\<close>

theorem load_failure_drops_cause_counterexample:
  "loadNativeClipperLibInstanceAsync quitting_env WasmOnly initial_state
     = (Some (Inl (ClipperError ''could not load native clipper in the desired format'')), \<lparr>wasmModule = IsError (NativeError 7), asmJsModule = Undefined, wasmInits = 1, asmJsInits = 0, wrappersMade = 0\<rparr>)
   \<and> fst (loadNativeClipperLibInstanceAsync quitting_env WasmOnly initial_state) \<noteq> Some (Inl (NativeError 7))"
  by (simp add: call_defs quitting_env_def initial_state_def could_not_load_error_def)

text \<open>
  C4, amended. When every format applicable to the requested mode ends with an \<open>Error\<close> in
  its module variable, the call throws the \<open>ClipperError\<close> of the last line, with the fixed
  message; whatever a call throws is that error or the one of the \<open>default\<close> branch. The
  value an initialisation was rejected with is stored in the module variable of its format
  and is not carried by what is thrown. A format whose module variable holds an \<open>Error\<close> is
  not retried: a call leaves the variable and the number of initialisations of that format
  as they are, and so does any list of calls made one after the other; and no run of any
  call, overlapping or not, that starts while the variable holds an \<open>Error\<close> initialises
  that format.
\<close>

theorem load_failure_is_generic_and_not_retried:
  "((fmt = WasmOnly \<and> instanceof_Error (wasmModule (snd (loadNativeClipperLibInstanceAsync env fmt s)))
    \<or> fmt = AsmJsOnly \<and> instanceof_Error (asmJsModule (snd (loadNativeClipperLibInstanceAsync env fmt s)))
    \<or> fmt = WasmWithAsmJsFallback
       \<and> instanceof_Error (wasmModule (snd (loadNativeClipperLibInstanceAsync env fmt s)))
       \<and> instanceof_Error (asmJsModule (snd (loadNativeClipperLibInstanceAsync env fmt s))))
   \<longrightarrow> fst (loadNativeClipperLibInstanceAsync env fmt s) = Some (Inl (ClipperError ''could not load native clipper in the desired format'')))
   \<and> (fst (loadNativeClipperLibInstanceAsync env fmt s) = Some (Inl err)
   \<longrightarrow> err = ClipperError ''could not load native clipper in the desired format''
       \<or> err = ClipperError ''unknown native clipper format'')
   \<and> ((wasmModule s = Undefined \<and> (fmt = WasmOnly \<or> fmt = WasmWithAsmJsFallback)
      \<and> env Wasm (wasmInits s) = Quit v
    \<longrightarrow> wasmModule (snd (loadNativeClipperLibInstanceAsync env fmt s)) = v)
   \<and> (asmJsModule s = Undefined
      \<and> (fmt = AsmJsOnly
          \<or> fmt = WasmWithAsmJsFallback
             \<and> (instanceof_Error (wasmModule s)
                 \<or> wasmModule s = Undefined \<and> (\<exists>v'. env Wasm (wasmInits s) = Quit v')))
      \<and> env AsmJs (asmJsInits s) = Quit v
    \<longrightarrow> asmJsModule (snd (loadNativeClipperLibInstanceAsync env fmt s)) = v))
   \<and> (instanceof_Error (wasmModule s) \<longrightarrow>
     wasmModule (snd (loadNativeClipperLibInstanceAsync env fmt s)) = wasmModule s
     \<and> wasmInits (snd (loadNativeClipperLibInstanceAsync env fmt s)) = wasmInits s)
   \<and> (instanceof_Error (asmJsModule s) \<longrightarrow>
     asmJsModule (snd (loadNativeClipperLibInstanceAsync env fmt s)) = asmJsModule s
     \<and> asmJsInits (snd (loadNativeClipperLibInstanceAsync env fmt s)) = asmJsInits s)
   \<and> (instanceof_Error (wasmModule s) \<longrightarrow>
     wasmModule (later_calls env fmts s) = wasmModule s
     \<and> wasmInits (later_calls env fmts s) = wasmInits s)
   \<and> (instanceof_Error (asmJsModule s) \<longrightarrow>
     asmJsModule (later_calls env fmts s) = asmJsModule s
     \<and> asmJsInits (later_calls env fmts s) = asmJsInits s)
   \<and> ((instanceof_Error (wasmModule s) \<longrightarrow> wasmInits (snd (advance env p s)) = wasmInits s)
   \<and> (instanceof_Error (asmJsModule s) \<longrightarrow> asmJsInits (snd (advance env p s)) = asmJsInits s))"
  (is "?A1 \<and> ?A2 \<and> ?A3 \<and> ?A4 \<and> ?A5 \<and> ?A6 \<and> ?A7 \<and> ?A8")
proof -
  have 1: ?A1 by (rule exhausted_formats_throw_generic)
  have 2: ?A2 by (rule thrown_error_is_generic)
  have 3: ?A3 by (rule rejection_value_is_stored)
  have 4: ?A4 by (rule failed_wasm_not_retried)
  have 5: ?A5 by (rule failed_asmJs_not_retried)
  have 6: ?A6 by (rule later_calls_keep_wasm_error)
  have 7: ?A7 by (rule later_calls_keep_asmJs_error)
  have 8: ?A8 by (rule error_is_skipped_at_every_step)
  show ?thesis by (rule conjI [OF 1 conjI [OF 2 conjI [OF 3 conjI [OF 4 conjI [OF 5 conjI [OF 6 conjI [OF 7 8]]]]]]])
qed

theorem load_failure_is_generic_and_not_retried_witness:
  "loadNativeClipperLibInstanceAsync quitting_env WasmWithAsmJsFallback initial_state
     = (Some (Inl (ClipperError ''could not load native clipper in the desired format'')), \<lparr>wasmModule = IsError (NativeError 7), asmJsModule = IsError (NativeError 7), wasmInits = 1, asmJsInits = 1, wrappersMade = 0\<rparr>)"
proof -
  have state: "snd (loadNativeClipperLibInstanceAsync quitting_env WasmWithAsmJsFallback initial_state)
     = \<lparr>wasmModule = IsError (NativeError 7), asmJsModule = IsError (NativeError 7), wasmInits = 1, asmJsInits = 1, wrappersMade = 0\<rparr>"
    by (simp add: call_defs quitting_env_def initial_state_def)
  then have failed:
    "WasmWithAsmJsFallback = WasmOnly \<and> instanceof_Error (wasmModule (snd (loadNativeClipperLibInstanceAsync quitting_env WasmWithAsmJsFallback initial_state)))
     \<or> WasmWithAsmJsFallback = AsmJsOnly \<and> instanceof_Error (asmJsModule (snd (loadNativeClipperLibInstanceAsync quitting_env WasmWithAsmJsFallback initial_state)))
     \<or> WasmWithAsmJsFallback = WasmWithAsmJsFallback
       \<and> instanceof_Error (wasmModule (snd (loadNativeClipperLibInstanceAsync quitting_env WasmWithAsmJsFallback initial_state)))
       \<and> instanceof_Error (asmJsModule (snd (loadNativeClipperLibInstanceAsync quitting_env WasmWithAsmJsFallback initial_state)))"
    by simp
  note first = load_failure_is_generic_and_not_retried
    [where env = quitting_env and fmt = WasmWithAsmJsFallback and s = initial_state, THEN conjunct1]
  from first [THEN mp, OF failed]
  have "fst (loadNativeClipperLibInstanceAsync quitting_env WasmWithAsmJsFallback initial_state) = Some (Inl (ClipperError ''could not load native clipper in the desired format''))" .
  with state show ?thesis by (simp add: prod_eq_iff)
qed

text \<open>
  What the amended C4 leaves out: a rejection value that is not an \<open>Error\<close>. When the first
  Wasm initialisation is rejected with \<open>undefined\<close>, the variable is \<open>undefined\<close> again and the
  next call initialises Wasm a second time; and a value in the variable that is neither
  \<open>undefined\<close> nor an \<open>Error\<close> is returned in a wrapper as if it were a module.
\<close>

lemma rejection_with_undefined_is_retried:
  "loadNativeClipperLibInstanceAsync undefined_rejection_env WasmOnly initial_state
     = (Some (Inl (ClipperError ''could not load native clipper in the desired format'')), \<lparr>wasmModule = Undefined, asmJsModule = Undefined, wasmInits = 1, asmJsInits = 0, wrappersMade = 0\<rparr>)
   \<and> loadNativeClipperLibInstanceAsync undefined_rejection_env WasmOnly \<lparr>wasmModule = Undefined, asmJsModule = Undefined, wasmInits = 1, asmJsInits = 0, wrappersMade = 0\<rparr>
     = (Some (Inr \<lparr>wrapper_ref = 0, wrapper_instance = Instance 1, wrapper_format = Wasm\<rparr>), \<lparr>wasmModule = Instance 1, asmJsModule = Undefined, wasmInits = 2, asmJsInits = 0, wrappersMade = 1\<rparr>)"
  by (simp add: call_defs undefined_rejection_env_def initial_state_def could_not_load_error_def)

lemma rejection_with_other_value_is_wrapped:
  "env Wasm 0 = Quit (OtherValue 9) \<longrightarrow>
   loadNativeClipperLibInstanceAsync env WasmOnly \<lparr>wasmModule = Undefined, asmJsModule = Undefined, wasmInits = 0, asmJsInits = 0, wrappersMade = 0\<rparr>
     = (Some (Inl (ClipperError ''could not load native clipper in the desired format'')), \<lparr>wasmModule = OtherValue 9, asmJsModule = Undefined, wasmInits = 1, asmJsInits = 0, wrappersMade = 0\<rparr>)
   \<and> loadNativeClipperLibInstanceAsync env WasmOnly \<lparr>wasmModule = OtherValue 9, asmJsModule = Undefined, wasmInits = 1, asmJsInits = 0, wrappersMade = 0\<rparr>
     = (Some (Inr \<lparr>wrapper_ref = 0, wrapper_instance = OtherValue 9, wrapper_format = Wasm\<rparr>), \<lparr>wasmModule = OtherValue 9, asmJsModule = Undefined, wasmInits = 1, asmJsInits = 0, wrappersMade = 1\<rparr>)"
  by (simp add: call_defs could_not_load_error_def)

text \<open>
  C5. For every requested format that is none of \<open>WasmWithAsmJsFallback\<close>, \<open>WasmOnly\<close> and
  \<open>AsmJsOnly\<close>, \<open>loadNativeClipperLibInstanceAsync\<close> throws the \<open>ClipperError\<close> of the
  \<open>default\<close> branch before any loading attempt: the call settles at once, no \<open>initModule\<close>
  is called and neither module variable changes (the whole state is unchanged).
\<close>

theorem unknown_format_throws_before_loading:
  assumes "fmt \<noteq> WasmWithAsmJsFallback" and "fmt \<noteq> WasmOnly" and "fmt \<noteq> AsmJsOnly"
  shows "start_call env fmt s = (Settled (Inl (ClipperError ''unknown native clipper format'')), s)
       \<and> loadNativeClipperLibInstanceAsync env fmt s
           = (Some (Inl (ClipperError ''unknown native clipper format'')), s)"
  using assms by (simp add: call_defs unknown_format_error_def)

theorem unknown_format_throws_before_loading_witness:
  "''wasm'' \<noteq> WasmWithAsmJsFallback \<and> ''wasm'' \<noteq> WasmOnly \<and> ''wasm'' \<noteq> AsmJsOnly
   \<and> loadNativeClipperLibInstanceAsync (\<lambda>F k. Ready 5) ''wasm'' initial_state
       = (Some (Inl (ClipperError ''unknown native clipper format'')), initial_state)"
proof -
  have a: "''wasm'' \<noteq> WasmWithAsmJsFallback" by (simp add: WasmWithAsmJsFallback_def)
  have b: "''wasm'' \<noteq> WasmOnly" by (simp add: WasmOnly_def)
  have c: "''wasm'' \<noteq> AsmJsOnly" by (simp add: AsmJsOnly_def)
  show ?thesis
    using a b c unknown_format_throws_before_loading [OF a b c] by simp
qed

text \<open>
  C10, as stated, fails for overlapping calls: two \<open>AsmJsOnly\<close> calls, the second made before
  the first is resumed, both succeed, and their wrappers hold the two different modules
  0 and 1.
\<close>

theorem overlapping_wrappers_differ_counterexample:
  "run_schedule fresh_module_env [0, 1, 0, 1] ([Start AsmJsOnly, Start AsmJsOnly], initial_state)
     = ([Settled (Inr \<lparr>wrapper_ref = 0, wrapper_instance = Instance 0, wrapper_format = AsmJs\<rparr>),
         Settled (Inr \<lparr>wrapper_ref = 1, wrapper_instance = Instance 1, wrapper_format = AsmJs\<rparr>)],
        \<lparr>wasmModule = Undefined, asmJsModule = Instance 1, wasmInits = 0, asmJsInits = 2, wrappersMade = 2\<rparr>)"
  by (simp add: call_defs fresh_module_env_def initial_state_def)

text \<open>
  C10, amended. Every successful call returns a newly constructed wrapper (its reference is
  the next unused one), whose instance is the module that the variable of the wrapper's
  format holds when the call returns. Two successful calls for the same format, the second
  made after the first returned with only calls made one after the other in between, yield
  distinct wrappers with the same instance.
\<close>

theorem wrapper_is_new_instance_is_cached:
  assumes first: "loadNativeClipperLibInstanceAsync env fmt1 s0 = (Some (Inr w1), s1)"
    and later: "s = later_calls env fmts s1"
    and second: "loadNativeClipperLibInstanceAsync env fmt2 s = (Some (Inr w2), s2)"
    and same: "wrapper_format w2 = wrapper_format w1"
  shows "wrapper_ref w1 = wrappersMade s0 \<and> wrappersMade s1 = Suc (wrappersMade s0)
       \<and> wrapper_ref w2 = wrappersMade s \<and> wrappersMade s2 = Suc (wrappersMade s)
       \<and> wrapper_ref w1 \<noteq> wrapper_ref w2
       \<and> wrapper_instance w2 = wrapper_instance w1
       \<and> (wrapper_format w1 = Wasm \<longrightarrow> wasmModule s1 = wrapper_instance w1)
       \<and> (wrapper_format w1 = AsmJs \<longrightarrow> asmJsModule s1 = wrapper_instance w1)"
proof -
  note n1 = load_success_new_wrapper [OF first]
  note n2 = load_success_new_wrapper [OF second]
  have "wrappersMade s1 \<le> wrappersMade s"
    unfolding later by (rule later_calls_wrappersMade_mono)
  with n1 n2 have distinct: "wrapper_ref w1 \<noteq> wrapper_ref w2" by simp
  note cached = load_success_is_cached [OF first]
  have inst: "wrapper_instance w2 = wrapper_instance w1"
  proof (cases "wrapper_format w1")
    case Wasm
    with cached have v: "wasmModule s1 = wrapper_instance w1"
      and ne: "\<not> instanceof_Error (wasmModule s1)" and nu: "wasmModule s1 \<noteq> Undefined"
      by simp_all
    from later_calls_keep_wasm_instance [OF ne nu, of env fmts] later v
    have "wasmModule s = wrapper_instance w1" by simp
    with load_returns_cached_instance [OF second] cached same Wasm
    show ?thesis by simp
  next
    case AsmJs
    with cached have v: "asmJsModule s1 = wrapper_instance w1"
      and ne: "\<not> instanceof_Error (asmJsModule s1)" and nu: "asmJsModule s1 \<noteq> Undefined"
      by simp_all
    from later_calls_keep_asmJs_instance [OF ne nu, of env fmts] later v
    have "asmJsModule s = wrapper_instance w1" by simp
    with load_returns_cached_instance [OF second] cached same AsmJs
    show ?thesis by simp
  qed
  from n1 n2 distinct inst cached show ?thesis by simp
qed

theorem wrapper_is_new_instance_is_cached_witness:
  "loadNativeClipperLibInstanceAsync fresh_module_env WasmOnly initial_state
     = (Some (Inr \<lparr>wrapper_ref = 0, wrapper_instance = Instance 0, wrapper_format = Wasm\<rparr>), \<lparr>wasmModule = Instance 0, asmJsModule = Undefined, wasmInits = 1, asmJsInits = 0, wrappersMade = 1\<rparr>)
   \<and> loadNativeClipperLibInstanceAsync fresh_module_env WasmWithAsmJsFallback
        (later_calls fresh_module_env [AsmJsOnly] \<lparr>wasmModule = Instance 0, asmJsModule = Undefined, wasmInits = 1, asmJsInits = 0, wrappersMade = 1\<rparr>)
     = (Some (Inr \<lparr>wrapper_ref = 2, wrapper_instance = Instance 0, wrapper_format = Wasm\<rparr>), \<lparr>wasmModule = Instance 0, asmJsModule = Instance 0, wasmInits = 1, asmJsInits = 1, wrappersMade = 3\<rparr>)
   \<and> wrapper_ref \<lparr>wrapper_ref = 0, wrapper_instance = Instance 0, wrapper_format = Wasm\<rparr> \<noteq> wrapper_ref \<lparr>wrapper_ref = 2, wrapper_instance = Instance 0, wrapper_format = Wasm\<rparr>
   \<and> wrapper_instance \<lparr>wrapper_ref = 2, wrapper_instance = Instance 0, wrapper_format = Wasm\<rparr> = wrapper_instance \<lparr>wrapper_ref = 0, wrapper_instance = Instance 0, wrapper_format = Wasm\<rparr>"
proof -
  have first: "loadNativeClipperLibInstanceAsync fresh_module_env WasmOnly initial_state
     = (Some (Inr \<lparr>wrapper_ref = 0, wrapper_instance = Instance 0, wrapper_format = Wasm\<rparr>), \<lparr>wasmModule = Instance 0, asmJsModule = Undefined, wasmInits = 1, asmJsInits = 0, wrappersMade = 1\<rparr>)"
    by (simp add: call_defs fresh_module_env_def initial_state_def)
  have later: "\<lparr>wasmModule = Instance 0, asmJsModule = Instance 0, wasmInits = 1, asmJsInits = 1, wrappersMade = 2\<rparr>
     = later_calls fresh_module_env [AsmJsOnly] \<lparr>wasmModule = Instance 0, asmJsModule = Undefined, wasmInits = 1, asmJsInits = 0, wrappersMade = 1\<rparr>"
    by (simp add: call_defs fresh_module_env_def)
  have second: "loadNativeClipperLibInstanceAsync fresh_module_env WasmWithAsmJsFallback \<lparr>wasmModule = Instance 0, asmJsModule = Instance 0, wasmInits = 1, asmJsInits = 1, wrappersMade = 2\<rparr>
     = (Some (Inr \<lparr>wrapper_ref = 2, wrapper_instance = Instance 0, wrapper_format = Wasm\<rparr>), \<lparr>wasmModule = Instance 0, asmJsModule = Instance 0, wasmInits = 1, asmJsInits = 1, wrappersMade = 3\<rparr>)"
    by (simp add: call_defs)
  have same: "wrapper_format \<lparr>wrapper_ref = 2, wrapper_instance = Instance 0, wrapper_format = Wasm\<rparr> = wrapper_format \<lparr>wrapper_ref = 0, wrapper_instance = Instance 0, wrapper_format = Wasm\<rparr>"
    by simp
  from wrapper_is_new_instance_is_cached [OF first later second same]
  show ?thesis using first second later [symmetric] by simp
qed

section \<open>The claims about the operations\<close>

subsection \<open>Auxiliary facts\<close>

lemma default_distance_below_sqrt2: "default_distance < sqrt 2 - 27 / 100"
proof -
  have "(default_distance + 27/100)\<^sup>2 < 2"
    by (simp add: default_distance_def power2_eq_square)
  moreover have "0 \<le> default_distance + 27/100" by (simp add: default_distance_def)
  ultimately have "default_distance + 27/100 < sqrt 2"
    using real_less_rsqrt by blast
  then show ?thesis by simp
qed

lemma cross_swap: "cross q p = - cross p q"
  by (simp add: cross_def)

lemma cross_sum_snoc: "cross_sum (ps @ [p, q]) = cross_sum (ps @ [p]) + cross p q"
  by (induction ps rule: cross_sum.induct) simp_all

lemma cross_sum_rev: "cross_sum (rev ps) = - cross_sum ps"
proof (induction ps rule: cross_sum.induct)
  case (1 p q ps)
  have "cross_sum (rev (p # q # ps)) = cross_sum (rev ps @ [q, p])" by simp
  also have "\<dots> = cross_sum (rev ps @ [q]) + cross q p" by (rule cross_sum_snoc)
  also have "\<dots> = - cross_sum (q # ps) - cross p q"
    using "1.IH" cross_swap [of q p] by simp
  finally show ?case by simp
qed simp_all

lemma cross_sum_closed_rev:
  "cross_sum (rev (p # ps) @ [hd (rev (p # ps))]) = - cross_sum ((p # ps) @ [p])"
proof (cases ps rule: rev_cases)
  case Nil
  then show ?thesis by (simp add: cross_def)
next
  case (snoc qs z)
  have "cross_sum (rev (p # ps) @ [hd (rev (p # ps))]) = cross_sum ((z # rev qs) @ [p, z])"
    using snoc by simp
  also have "\<dots> = cross_sum ((z # rev qs) @ [p]) + cross p z" by (rule cross_sum_snoc)
  also have "\<dots> = cross_sum (rev (p # qs @ [z])) + cross p z" by simp
  also have "\<dots> = - cross_sum (p # qs @ [z]) + cross p z" by (simp only: cross_sum_rev)
  finally have lhs: "cross_sum (rev (p # ps) @ [hd (rev (p # ps))])
      = - cross_sum (p # qs @ [z]) + cross p z" .
  have "cross_sum ((p # ps) @ [p]) = cross_sum ((p # qs) @ [z, p])" using snoc by simp
  also have "\<dots> = cross_sum ((p # qs) @ [z]) + cross z p" by (rule cross_sum_snoc)
  finally have rhs: "cross_sum ((p # ps) @ [p]) = cross_sum (p # qs @ [z]) - cross p z"
    using cross_swap [of z p] by simp
  from lhs rhs show ?thesis by simp
qed

subsection \<open>The claims\<close>

text \<open>
  C6. The claim is that a call of \<open>cleanPolygon\<close> or \<open>cleanPolygons\<close> without a distance
  uses a threshold of about \<open>\<surd>2\<close>, so that vertices whose coordinates each differ by at most
  1 are removed. The code passes 1.1415: that is more than 0.27 below \<open>\<surd>2\<close>, and the vertices
  (0, 0) and (1, 1) are farther apart than it.
\<close>

theorem cleanPolygon_default_distance_is_not_sqrt2:
  "ClipperLibWrapper_cleanPolygon cleanPolygon this path None
     = cleanPolygon (wrapper_instance this) path (11415 / 10000)
   \<and> ClipperLibWrapper_cleanPolygons cleanPolygons this paths None
     = cleanPolygons (wrapper_instance this) paths (11415 / 10000)
   \<and> default_distance < sqrt 2 - 27 / 100
   \<and> real_of_int (dist2 (0, 0) (1, 1)) > default_distance\<^sup>2"
  using default_distance_below_sqrt2
  by (simp add: ClipperLibWrapper_cleanPolygon_def ClipperLibWrapper_cleanPolygons_def
      default_distance_def dist2_def power2_eq_square)

text \<open>
  C7. For every clip request whose subject inputs contain an open path, \<open>clipToPaths\<close> fails
  with the usage error, whatever the kernel would compute: no result is returned.
\<close>

theorem clipToPaths_rejects_open_subject:
  assumes "list_ex (\<lambda>input. \<not> snd input) (subjectInputs clipData)"
  shows "ClipperLibWrapper_clipToPaths nativeClip this clipData = Inl UsagePrecondition
       \<and> (\<forall>result. ClipperLibWrapper_clipToPaths nativeClip this clipData \<noteq> Inr result)"
  using assms by (simp add: ClipperLibWrapper_clipToPaths_def clipToPaths_def)

theorem clipToPaths_rejects_open_subject_witness:
  "list_ex (\<lambda>input. \<not> snd input)
     (subjectInputs \<lparr>clipType = Intersection,
        subjectInputs = [([(0, 0), (10, 0), (10, 10), (0, 10)], True), ([(0, 5), (20, 5)], False)],
        clipInputs = [[(5, 5), (15, 5), (15, 15), (5, 15)]],
        subjectFillType = EvenOdd, clipFillType = EvenOdd\<rparr>)
   \<and> ClipperLibWrapper_clipToPaths (\<lambda>nativeLib clipData. Inr (Some []))
       \<lparr>wrapper_ref = 0, wrapper_instance = Instance 0, wrapper_format = Wasm\<rparr>
       \<lparr>clipType = Intersection,
        subjectInputs = [([(0, 0), (10, 0), (10, 10), (0, 10)], True), ([(0, 5), (20, 5)], False)],
        clipInputs = [[(5, 5), (15, 5), (15, 15), (5, 15)]],
        subjectFillType = EvenOdd, clipFillType = EvenOdd\<rparr>
     = Inl UsagePrecondition"
proof -
  have open_subject: "list_ex (\<lambda>input. \<not> snd input)
     (subjectInputs \<lparr>clipType = Intersection,
        subjectInputs = [([(0, 0), (10, 0), (10, 10), (0, 10)], True), ([(0, 5), (20, 5)], False)],
        clipInputs = [[(5, 5), (15, 5), (15, 15), (5, 15)]],
        subjectFillType = EvenOdd, clipFillType = EvenOdd\<rparr>)"
    by simp
  from clipToPaths_rejects_open_subject [OF open_subject] open_subject
  show ?thesis by blast
qed

text \<open>
  C8. For every path \<open>P\<close>, the area of the reversed path is the negation of the area of
  \<open>P\<close>: \<open>area(reverse(P)) = -area(P)\<close>.
\<close>

theorem area_of_reversed_path_is_negated:
  "ClipperLibWrapper_area this (ClipperLibWrapper_reversePath this P) = - ClipperLibWrapper_area this P"
proof (cases P)
  case Nil
  then show ?thesis
    by (simp add: ClipperLibWrapper_area_def ClipperLibWrapper_reversePath_def area_def reversePath_def)
next
  case (Cons p ps)
  obtain z zs where r: "rev (p # ps) = z # zs" by (cases "rev (p # ps)") auto
  then have hd: "hd (rev (p # ps)) = z" by simp
  have "area (rev (p # ps)) = real_of_int (cross_sum (rev (p # ps) @ [hd (rev (p # ps))])) / 2"
    unfolding area_def r by simp
  also have "\<dots> = real_of_int (- cross_sum ((p # ps) @ [p])) / 2"
    by (simp only: cross_sum_closed_rev)
  also have "\<dots> = - area (p # ps)" by (simp add: area_def)
  finally show ?thesis
    using Cons by (simp add: ClipperLibWrapper_area_def ClipperLibWrapper_reversePath_def reversePath_def)
qed

end
